theory Spec2Isabelle
  imports Complex_Main
begin

section \<open>Python values, exceptions and the builtins the client calls\<close>

text \<open>
  The client \<^verbatim>\<open>goatdclient/goatd_client.py\<close> handles decoded JSON documents and the
  arguments of its callers. Both are Python objects; the model keeps the shapes
  \<^verbatim>\<open>json.loads\<close> can produce. A dictionary is an association list in insertion order
  (keys are strings, as in JSON). The type \<open>'f\<close> is the type of Python floats: the
  client never computes with a float, so it stays a parameter. Where Python 2 and
  Python 3 differ, the model follows Python 3 (\<^verbatim>\<open>urllib.request\<close>, text strings).
\<close>

datatype 'f pyval =
    PNone
  | PBool bool
  | PInt int
  | PFloat 'f
  | PStr string
  | PList "'f pyval list"
  | PDict "(string \<times> 'f pyval) list"

text \<open>Exceptions are values: every raise of the source is an \<open>Inl\<close> of the model.\<close>

datatype error =
    AttributeError
  | TypeError
  | ValueError
  | OverflowError
  | IndexError
  | KeyError
  | URLError
  | HTTPError nat
  | UnicodeDecodeError
  | JSONDecodeError

datatype http_method = GET | POST

text \<open>
  One call of \<^verbatim>\<open>urlopen\<close>: the method, the URL, the body (\<open>None\<close> for a plain URL) and
  the headers of the \<^verbatim>\<open>Request\<close> object.
\<close>

record request =
  req_method :: http_method
  req_url :: string
  req_data :: "string option"
  req_headers :: "(string \<times> string) list"

text \<open>The world outside the client: the requests issued so far, oldest first.\<close>

type_synonym world = "request list"

text \<open>
  What the source takes from the Python runtime and from the daemon, as parameters:
  the float conversions (\<^verbatim>\<open>float(i)\<close> may raise OverflowError, \<^verbatim>\<open>float(s)\<close> ValueError),
  the \<^verbatim>\<open>repr\<close> of floats and strings, the JSON codec, and the daemon: \<open>http\<close> gives, for
  the requests seen so far and the current one, the text
  \<^verbatim>\<open>urlopen(...).read().decode('utf-8')\<close> evaluates to, or the exception it raises.
\<close>

record 'f env =
  float_of_int :: "int \<Rightarrow> error + 'f"
  float_of_str :: "string \<Rightarrow> error + 'f"
  repr_float :: "'f \<Rightarrow> string"
  repr_str :: "string \<Rightarrow> string"
  json_loads :: "string \<Rightarrow> error + 'f pyval"
  json_dumps :: "'f pyval \<Rightarrow> string"
  http :: "request list \<Rightarrow> request \<Rightarrow> error + string"

subsection \<open>\<^verbatim>\<open>str\<close>, \<^verbatim>\<open>repr\<close> and \<^verbatim>\<open>str.format\<close>\<close>

fun str_nat :: "nat \<Rightarrow> string" where
  "str_nat n =
     (if n < 10 then [char_of (48 + n)]
      else str_nat (n div 10) @ [char_of (48 + n mod 10)])"

declare str_nat.simps [simp del]

definition str_int :: "int \<Rightarrow> string" where
  "str_int i = (if i < 0 then CHR ''-'' # str_nat (nat (- i)) else str_nat (nat i))"

fun join :: "string \<Rightarrow> string list \<Rightarrow> string" where
  "join sep [] = []"
| "join sep [x] = x"
| "join sep (x # y # ys) = x @ sep @ join sep (y # ys)"

fun py_repr :: "'f env \<Rightarrow> 'f pyval \<Rightarrow> string" where
  "py_repr E PNone = ''None''"
| "py_repr E (PBool b) = (if b then ''True'' else ''False'')"
| "py_repr E (PInt i) = str_int i"
| "py_repr E (PFloat x) = repr_float E x"
| "py_repr E (PStr s) = repr_str E s"
| "py_repr E (PList xs) = ''['' @ join '', '' (map (py_repr E) xs) @ '']''"
| "py_repr E (PDict kvs) =
     ''{'' @ join '', '' (map (\<lambda>(k, v). repr_str E k @ '': '' @ py_repr E v) kvs) @ ''}''"

text \<open>\<^verbatim>\<open>str(x)\<close> is \<^verbatim>\<open>repr(x)\<close> except on a string, which is its own text.\<close>

definition py_str :: "'f env \<Rightarrow> 'f pyval \<Rightarrow> string" where
  "py_str E v = (case v of PStr s \<Rightarrow> s | _ \<Rightarrow> py_repr E v)"

text \<open>
  \<^verbatim>\<open>template.format(*args)\<close> for the replacement fields the source uses: \<^verbatim>\<open>{}\<close>
  (automatic numbering) and \<^verbatim>\<open>{n}\<close> (a decimal index), with \<^verbatim>\<open>{{\<close> and \<^verbatim>\<open>}}\<close> as escapes.
  The template is read one character at a time; \<open>fstate\<close> says where the reader is and
  \<open>numbering\<close> which of the two numbering styles the template has used so far (Python
  refuses to mix them). A field that is neither empty nor a decimal index would be a
  keyword, an attribute or a format specification: no keyword arguments are ever
  passed by the source, so it is a KeyError here.
\<close>

datatype fstate = Text | Open | Field string | Close

datatype numbering = Unset | Auto nat | Manual

definition is_digit :: "char \<Rightarrow> bool" where
  "is_digit c = ((48::nat) \<le> of_char c \<and> of_char c \<le> (57::nat))"

definition nat_of_digits :: "string \<Rightarrow> nat" where
  "nat_of_digits s = foldl (\<lambda>n c. 10 * n + (of_char c - 48)) (0::nat) s"

definition cons_out :: "char \<Rightarrow> error + string \<Rightarrow> error + string" where
  "cons_out c r = (case r of Inl e \<Rightarrow> Inl e | Inr s \<Rightarrow> Inr (c # s))"

definition app_out :: "string \<Rightarrow> error + string \<Rightarrow> error + string" where
  "app_out p r = (case r of Inl e \<Rightarrow> Inl e | Inr s \<Rightarrow> Inr (p @ s))"

fun format_go :: "'f env \<Rightarrow> 'f pyval list \<Rightarrow> fstate \<Rightarrow> numbering \<Rightarrow> string \<Rightarrow> error + string" where
  "format_go E args Text num [] = Inr []"
| "format_go E args Text num (c # cs) =
     (if c = CHR ''{'' then format_go E args Open num cs
      else if c = CHR ''}'' then format_go E args Close num cs
      else cons_out c (format_go E args Text num cs))"
| "format_go E args Open num [] = Inl ValueError"
| "format_go E args Open num (c # cs) =
     (if c = CHR ''{'' then cons_out c (format_go E args Text num cs)
      else if c = CHR ''}'' then
        (case num of
           Manual \<Rightarrow> Inl ValueError
         | Unset \<Rightarrow>
             (if 0 < length args
              then app_out (py_str E (args ! 0)) (format_go E args Text (Auto 1) cs)
              else Inl IndexError)
         | Auto n \<Rightarrow>
             (if n < length args
              then app_out (py_str E (args ! n)) (format_go E args Text (Auto (Suc n)) cs)
              else Inl IndexError))
      else format_go E args (Field [c]) num cs)"
| "format_go E args (Field f) num [] = Inl ValueError"
| "format_go E args (Field f) num (c # cs) =
     (if c = CHR ''}'' then
        (if \<not> list_all is_digit f then Inl KeyError
         else
           (case num of
              Auto n \<Rightarrow> Inl ValueError
            | _ \<Rightarrow>
                (if nat_of_digits f < length args
                 then app_out (py_str E (args ! nat_of_digits f))
                        (format_go E args Text Manual cs)
                 else Inl IndexError)))
      else format_go E args (Field (f @ [c])) num cs)"
| "format_go E args Close num [] = Inl ValueError"
| "format_go E args Close num (c # cs) =
     (if c = CHR ''}'' then cons_out c (format_go E args Text num cs) else Inl ValueError)"

definition py_format :: "'f env \<Rightarrow> string \<Rightarrow> 'f pyval list \<Rightarrow> error + string" where
  "py_format E template args = format_go E args Text Unset template"

subsection \<open>\<^verbatim>\<open>dict.get\<close>, \<^verbatim>\<open>float\<close> and unpacking\<close>

text \<open>
  \<^verbatim>\<open>x.get(key, default)\<close>: only a dictionary has the method; on anything else the
  attribute lookup raises AttributeError.
\<close>

definition py_get_default :: "'f pyval \<Rightarrow> string \<Rightarrow> 'f pyval \<Rightarrow> error + 'f pyval" where
  "py_get_default x key dflt =
     (case x of
        PDict kvs \<Rightarrow> Inr (case map_of kvs key of None \<Rightarrow> dflt | Some v \<Rightarrow> v)
      | _ \<Rightarrow> Inl AttributeError)"

definition py_get :: "'f pyval \<Rightarrow> string \<Rightarrow> error + 'f pyval" where
  "py_get x key = py_get_default x key PNone"

text \<open>\<^verbatim>\<open>float(x)\<close>; \<^verbatim>\<open>bool\<close> is a subclass of \<^verbatim>\<open>int\<close>.\<close>

definition py_float :: "'f env \<Rightarrow> 'f pyval \<Rightarrow> error + 'f" where
  "py_float E x =
     (case x of
        PFloat a \<Rightarrow> Inr a
      | PInt i \<Rightarrow> float_of_int E i
      | PBool b \<Rightarrow> float_of_int E (if b then 1 else 0)
      | PStr s \<Rightarrow> float_of_str E s
      | _ \<Rightarrow> Inl TypeError)"

text \<open>
  \<^verbatim>\<open>a, b = x\<close>: \<open>x\<close> is iterated; a list yields its elements, a string its characters,
  a dictionary its keys. Two items are required.
\<close>

definition py_iter :: "'f pyval \<Rightarrow> error + 'f pyval list" where
  "py_iter x =
     (case x of
        PList xs \<Rightarrow> Inr xs
      | PStr s \<Rightarrow> Inr (map (\<lambda>c. PStr [c]) s)
      | PDict kvs \<Rightarrow> Inr (map (\<lambda>kv. PStr (fst kv)) kvs)
      | _ \<Rightarrow> Inl TypeError)"

definition py_unpack2 :: "'f pyval \<Rightarrow> error + ('f pyval \<times> 'f pyval)" where
  "py_unpack2 x =
     (case py_iter x of
        Inl e \<Rightarrow> Inl e
      | Inr items \<Rightarrow> (case items of [a, b] \<Rightarrow> Inr (a, b) | _ \<Rightarrow> Inl ValueError))"

section \<open>The transport: class \<^verbatim>\<open>Goatd\<close>\<close>

record Goatd =
  host :: string
  port :: int

definition Goatd_init :: "string \<Rightarrow> int \<Rightarrow> Goatd" where
  "Goatd_init h p = \<lparr>host = h, port = p\<rparr>"

text \<open>\<^verbatim>\<open>Goatd()\<close> with the defaults of the constructor.\<close>

definition Goatd_default :: Goatd where
  "Goatd_default = Goatd_init ''localhost'' 2222"

definition Goatd_url :: "'f env \<Rightarrow> Goatd \<Rightarrow> string \<Rightarrow> error + string" where
  "Goatd_url E self endpoint =
     py_format E ''http://{0}:{1}{2}'' [PStr (host self), PInt (port self), PStr endpoint]"

text \<open>\<^verbatim>\<open>urlopen\<close> records the request and hands back what the daemon answers.\<close>

definition urlopen :: "'f env \<Rightarrow> request \<Rightarrow> world \<Rightarrow> (error + string) \<times> world" where
  "urlopen E r w = (http E w r, w @ [r])"

definition Goatd_get :: "'f env \<Rightarrow> Goatd \<Rightarrow> string \<Rightarrow> world \<Rightarrow> (error + 'f pyval) \<times> world" where
  "Goatd_get E self endpoint w =
     (case Goatd_url E self endpoint of
        Inl e \<Rightarrow> (Inl e, w)
      | Inr u \<Rightarrow>
          (case urlopen E \<lparr>req_method = GET, req_url = u, req_data = None, req_headers = []\<rparr> w of
             (Inl e, w') \<Rightarrow> (Inl e, w')
           | (Inr json_body, w') \<Rightarrow> (json_loads E json_body, w')))"

definition Goatd_post ::
  "'f env \<Rightarrow> Goatd \<Rightarrow> 'f pyval \<Rightarrow> string \<Rightarrow> world \<Rightarrow> (error + 'f pyval) \<times> world" where
  "Goatd_post E self content endpoint w =
     (case Goatd_url E self endpoint of
        Inl e \<Rightarrow> (Inl e, w)
      | Inr u \<Rightarrow>
          (let post_content = json_dumps E content;
               headers = [(''Content-Type'', ''application/json'')];
               req = \<lparr>req_method = POST, req_url = u, req_data = Some post_content,
                      req_headers = headers\<rparr>
           in case urlopen E req w of
                (Inl e, w') \<Rightarrow> (Inl e, w')
              | (Inr body, w') \<Rightarrow> (json_loads E body, w')))"

definition Goatd_version :: "'f env \<Rightarrow> Goatd \<Rightarrow> world \<Rightarrow> (error + 'f pyval) \<times> world" where
  "Goatd_version E self w =
     (case Goatd_get E self ''/'' w of
        (Inl e, w') \<Rightarrow> (Inl e, w')
      | (Inr content, w') \<Rightarrow>
          (case py_get content ''goatd'' of
             Inl e \<Rightarrow> (Inl e, w')
           | Inr g \<Rightarrow> (py_get g ''version'', w')))"

section \<open>The vehicle proxy: class \<^verbatim>\<open>Goat\<close>\<close>

text \<open>
  Modelled from the spec: the modules \<^verbatim>\<open>bearing\<close> and \<^verbatim>\<open>point\<close> that define \<^verbatim>\<open>Bearing\<close>
  and \<^verbatim>\<open>Point\<close> are not among the sources. The specification describes both as pure
  data wrappers consumed by the client: a Bearing wraps a degree value, a Point is the
  pair (latitude, longitude). They are constructors here, applied to whatever value the
  client passes.
\<close>

datatype 'f Bearing = Bearing "'f pyval"

datatype 'f Point = Point "'f pyval" "'f pyval"

text \<open>\<^verbatim>\<open>Wind = namedtuple('Wind', ['absolute', 'speed', 'apparent'])\<close>\<close>

datatype 'f Wind = Wind (absolute: "'f Bearing") (speed: "'f pyval") (apparent: "'f Bearing")

record 'f Goat =
  goatd :: Goatd
  auto_update :: bool
  cached_goat :: "'f pyval"

definition Goat_init :: "Goatd option \<Rightarrow> bool \<Rightarrow> 'f Goat" where
  "Goat_init g au =
     \<lparr>goatd = (case g of None \<Rightarrow> Goatd_default | Some d \<Rightarrow> d),
      auto_update = au,
      cached_goat = PDict []\<rparr>"

text \<open>
  A method of a \<^verbatim>\<open>Goat\<close> returns its result (or the exception), the object after the
  call and the world after the call.
\<close>

definition Goat_update :: "'f env \<Rightarrow> 'f Goat \<Rightarrow> world \<Rightarrow> (error + unit) \<times> 'f Goat \<times> world" where
  "Goat_update E self w =
     (case Goatd_get E (goatd self) ''/goat'' w of
        (Inl e, w') \<Rightarrow> (Inl e, self, w')
      | (Inr j, w') \<Rightarrow> (Inr (), self\<lparr>cached_goat := j\<rparr>, w'))"

text \<open>
  The decorator \<^verbatim>\<open>_auto_update\<close>: \<^verbatim>\<open>dec(self)\<close> updates first when the flag is set and
  then calls the wrapped function \<open>f\<close>. The wrapped functions of the source only read
  \<^verbatim>\<open>self\<close>, so \<open>f\<close> maps the object to a result or an exception.
\<close>

definition auto_update_dec ::
  "('f env \<Rightarrow> 'f Goat \<Rightarrow> error + 'a) \<Rightarrow> 'f env \<Rightarrow> 'f Goat \<Rightarrow> world \<Rightarrow> (error + 'a) \<times> 'f Goat \<times> world" where
  "auto_update_dec f E self w =
     (if auto_update self then
        (case Goat_update E self w of
           (Inl e, self', w') \<Rightarrow> (Inl e, self', w')
         | (Inr _, self', w') \<Rightarrow> (f E self', self', w'))
      else (f E self, self, w))"

text \<open>The bodies of the five properties, before decoration.\<close>

definition heading_body :: "'f env \<Rightarrow> 'f Goat \<Rightarrow> error + 'f Bearing" where
  "heading_body E self =
     (let content = cached_goat self in
      case py_get content ''heading'' of
        Inl e \<Rightarrow> Inl e
      | Inr h \<Rightarrow> (case py_float E h of Inl e \<Rightarrow> Inl e | Inr x \<Rightarrow> Inr (Bearing (PFloat x))))"

definition wind_body :: "'f env \<Rightarrow> 'f Goat \<Rightarrow> error + 'f Wind" where
  "wind_body E self =
     (case py_get (cached_goat self) ''wind'' of
        Inl e \<Rightarrow> Inl e
      | Inr content \<Rightarrow>
          (case py_get content ''absolute'' of
             Inl e \<Rightarrow> Inl e
           | Inr a \<Rightarrow>
               (case py_get content ''speed'' of
                  Inl e \<Rightarrow> Inl e
                | Inr s \<Rightarrow>
                    (case py_get content ''apparent'' of
                       Inl e \<Rightarrow> Inl e
                     | Inr p \<Rightarrow> Inr (Wind (Bearing a) s (Bearing p))))))"

definition position_body :: "'f env \<Rightarrow> 'f Goat \<Rightarrow> error + 'f Point" where
  "position_body E self =
     (let content = cached_goat self in
      case py_get content ''position'' of
        Inl e \<Rightarrow> Inl e
      | Inr p \<Rightarrow> (case py_unpack2 p of Inl e \<Rightarrow> Inl e | Inr (lat, lon) \<Rightarrow> Inr (Point lat lon)))"

definition target_rudder_angle_body :: "'f env \<Rightarrow> 'f Goat \<Rightarrow> error + 'f" where
  "target_rudder_angle_body E self =
     (let content = cached_goat self in
      case py_get content ''rudder_angle'' of Inl e \<Rightarrow> Inl e | Inr a \<Rightarrow> py_float E a)"

definition target_sail_angle_body :: "'f env \<Rightarrow> 'f Goat \<Rightarrow> error + 'f" where
  "target_sail_angle_body E self =
     (let content = cached_goat self in
      case py_get content ''sail_angle'' of Inl e \<Rightarrow> Inl e | Inr a \<Rightarrow> py_float E a)"

text \<open>The properties as a caller sees them: \<^verbatim>\<open>@property @_auto_update def heading(self)\<close>.\<close>

definition Goat_heading ::
  "'f env \<Rightarrow> 'f Goat \<Rightarrow> world \<Rightarrow> (error + 'f Bearing) \<times> 'f Goat \<times> world" where
  "Goat_heading = auto_update_dec heading_body"

definition Goat_wind ::
  "'f env \<Rightarrow> 'f Goat \<Rightarrow> world \<Rightarrow> (error + 'f Wind) \<times> 'f Goat \<times> world" where
  "Goat_wind = auto_update_dec wind_body"

definition Goat_position ::
  "'f env \<Rightarrow> 'f Goat \<Rightarrow> world \<Rightarrow> (error + 'f Point) \<times> 'f Goat \<times> world" where
  "Goat_position = auto_update_dec position_body"

definition Goat_target_rudder_angle ::
  "'f env \<Rightarrow> 'f Goat \<Rightarrow> world \<Rightarrow> (error + 'f) \<times> 'f Goat \<times> world" where
  "Goat_target_rudder_angle = auto_update_dec target_rudder_angle_body"

definition Goat_target_sail_angle ::
  "'f env \<Rightarrow> 'f Goat \<Rightarrow> world \<Rightarrow> (error + 'f) \<times> 'f Goat \<times> world" where
  "Goat_target_sail_angle = auto_update_dec target_sail_angle_body"

text \<open>
  \<^verbatim>\<open>set_rudder\<close> and \<^verbatim>\<open>set_sail\<close>: the angle is converted twice, as in the source
  (\<^verbatim>\<open>angle = float(angle)\<close>, then \<^verbatim>\<open>{'value': float(angle)}\<close>).
\<close>

definition Goat_set_rudder ::
  "'f env \<Rightarrow> 'f Goat \<Rightarrow> 'f pyval \<Rightarrow> world \<Rightarrow> (error + 'f pyval) \<times> 'f Goat \<times> world" where
  "Goat_set_rudder E self angle w =
     (case py_float E angle of
        Inl e \<Rightarrow> (Inl e, self, w)
      | Inr a \<Rightarrow>
          (case py_float E (PFloat a) of
             Inl e \<Rightarrow> (Inl e, self, w)
           | Inr a' \<Rightarrow>
               (case Goatd_post E (goatd self) (PDict [(''value'', PFloat a')]) ''/rudder'' w of
                  (Inl e, w') \<Rightarrow> (Inl e, self, w')
                | (Inr req, w') \<Rightarrow> (py_get req ''result'', self, w'))))"

definition Goat_set_sail ::
  "'f env \<Rightarrow> 'f Goat \<Rightarrow> 'f pyval \<Rightarrow> world \<Rightarrow> (error + 'f pyval) \<times> 'f Goat \<times> world" where
  "Goat_set_sail E self angle w =
     (case py_float E angle of
        Inl e \<Rightarrow> (Inl e, self, w)
      | Inr a \<Rightarrow>
          (case py_float E (PFloat a) of
             Inl e \<Rightarrow> (Inl e, self, w)
           | Inr a' \<Rightarrow>
               (case Goatd_post E (goatd self) (PDict [(''value'', PFloat a')]) ''/sail'' w of
                  (Inl e, w') \<Rightarrow> (Inl e, self, w')
                | (Inr req, w') \<Rightarrow> (py_get req ''result'', self, w'))))"

section \<open>The behaviour controller: class \<^verbatim>\<open>Behaviour\<close>\<close>

record Behaviour =
  behaviour_goatd :: Goatd

definition Behaviour_init :: "Goatd option \<Rightarrow> Behaviour" where
  "Behaviour_init g = \<lparr>behaviour_goatd = (case g of None \<Rightarrow> Goatd_default | Some d \<Rightarrow> d)\<rparr>"

definition Behaviour_start ::
  "'f env \<Rightarrow> Behaviour \<Rightarrow> 'f pyval \<Rightarrow> world \<Rightarrow> (error + 'f pyval) \<times> Behaviour \<times> world" where
  "Behaviour_start E self name w =
     (case Goatd_post E (behaviour_goatd self) (PDict [(''active'', name)]) ''/behaviours'' w of
        (Inl e, w') \<Rightarrow> (Inl e, self, w')
      | (Inr d, w') \<Rightarrow>
          (case py_get d ''active'' of
             Inl e \<Rightarrow> (Inl e, self, w')
           | Inr current \<Rightarrow>
               (case current of
                  PNone \<Rightarrow> (Inr (PStr ''no behaviour running''), self, w')
                | _ \<Rightarrow>
                    (case py_format E ''started {}'' [current] of
                       Inl e \<Rightarrow> (Inl e, self, w')
                     | Inr s \<Rightarrow> (Inr (PStr s), self, w')))))"

text \<open>\<^verbatim>\<open>stop\<close> calls \<^verbatim>\<open>self.start(None)\<close> and has no \<^verbatim>\<open>return\<close>: its value is \<^verbatim>\<open>None\<close>.\<close>

definition Behaviour_stop ::
  "'f env \<Rightarrow> Behaviour \<Rightarrow> world \<Rightarrow> (error + 'f pyval) \<times> Behaviour \<times> world" where
  "Behaviour_stop E self w =
     (case Behaviour_start E self PNone w of
        (Inl e, self', w') \<Rightarrow> (Inl e, self', w')
      | (Inr _, self', w') \<Rightarrow> (Inr PNone, self', w'))"

section \<open>Home position\<close>

definition get_home_position ::
  "'f env \<Rightarrow> Goatd option \<Rightarrow> world \<Rightarrow> (error + 'f Point option) \<times> world" where
  "get_home_position E g w =
     (let goatd' = (case g of None \<Rightarrow> Goatd_default | Some d \<Rightarrow> d) in
      case Goatd_get E goatd' ''/waypoints'' w of
        (Inl e, w') \<Rightarrow> (Inl e, w')
      | (Inr content, w') \<Rightarrow>
          (case py_get_default content ''home'' PNone of
             Inl e \<Rightarrow> (Inl e, w')
           | Inr home \<Rightarrow>
               (case home of
                  PNone \<Rightarrow> (Inr None, w')
                | _ \<Rightarrow>
                    (case py_unpack2 home of
                       Inl e \<Rightarrow> (Inl e, w')
                     | Inr (lat, lon) \<Rightarrow> (Inr (Some (Point lat lon)), w')))))"

section \<open>Requests, as the daemon sees them\<close>

definition base_url :: "Goatd \<Rightarrow> string" where
  "base_url g = ''http://'' @ host g @ '':'' @ str_int (port g)"

definition get_request :: "Goatd \<Rightarrow> string \<Rightarrow> request" where
  "get_request g path =
     \<lparr>req_method = GET, req_url = base_url g @ path, req_data = None, req_headers = []\<rparr>"

definition post_request :: "Goatd \<Rightarrow> string \<Rightarrow> string \<Rightarrow> request" where
  "post_request g path body =
     \<lparr>req_method = POST, req_url = base_url g @ path, req_data = Some body,
      req_headers = [(''Content-Type'', ''application/json'')]\<rparr>"

text \<open>The three components of what a method returns.\<close>

definition result_of :: "'r \<times> 's \<times> world \<Rightarrow> 'r" where
  "result_of out = fst out"

definition self_after :: "'r \<times> 's \<times> world \<Rightarrow> 's" where
  "self_after out = fst (snd out)"

definition world_after :: "'r \<times> 's \<times> world \<Rightarrow> world" where
  "world_after out = snd (snd out)"

section \<open>A test double for the examples\<close>

text \<open>
  The examples below run the client against a fixed environment over \<open>real\<close> floats.
  The JSON codec is a table of the documents the examples exchange, integers convert
  to floats exactly, no string converts to a float, and the daemon gives the same
  answer (a body or an exception) to every request.
\<close>

definition snapshot_example :: "real pyval" where
  "snapshot_example =
     PDict [(''heading'', PFloat 90),
            (''wind'', PDict [(''absolute'', PFloat 45), (''speed'', PFloat 5),
                              (''apparent'', PFloat 30)]),
            (''position'', PList [PFloat 51.5, PFloat (- 0.1)]),
            (''rudder_angle'', PFloat (- 10)),
            (''sail_angle'', PFloat 20)]"

definition snapshot_text :: string where
  \<open>snapshot_text = ''{"heading":90.0,"wind":{"absolute":45.0,"speed":5.0,"apparent":30.0},"position":[51.5,-0.1],"rudder_angle":-10.0,"sail_angle":20.0}''\<close>

definition test_loads :: "string \<Rightarrow> error + real pyval" where
  \<open>test_loads s =
     (if s = snapshot_text then Inr snapshot_example
      else if s = ''{}'' then Inr (PDict [])
      else if s = ''{"goatd": {}}'' then Inr (PDict [(''goatd'', PDict [])])
      else if s = ''{"active": "tack"}'' then Inr (PDict [(''active'', PStr ''tack'')])
      else if s = ''{"active": null}'' then Inr (PDict [(''active'', PNone)])
      else if s = ''{"result": 10.0}'' then Inr (PDict [(''result'', PFloat 10)])
      else if s = ''{"waypoints":[[1,2]]}'' then
        Inr (PDict [(''waypoints'', PList [PList [PInt 1, PInt 2]])])
      else if s = ''{"waypoints":[],"home":[3,4]}'' then
        Inr (PDict [(''waypoints'', PList []), (''home'', PList [PInt 3, PInt 4])])
      else Inl JSONDecodeError)\<close>

definition test_dumps :: "real pyval \<Rightarrow> string" where
  \<open>test_dumps v =
     (if v = PDict [(''value'', PFloat 10)] then ''{"value": 10.0}''
      else if v = PDict [(''active'', PStr ''tack'')] then ''{"active": "tack"}''
      else if v = PDict [(''active'', PNone)] then ''{"active": null}''
      else [])\<close>

definition answering :: "error + string \<Rightarrow> real env" where
  "answering reply =
     \<lparr>float_of_int = (\<lambda>i. Inr (of_int i)),
      float_of_str = (\<lambda>s. Inl ValueError),
      repr_float = (\<lambda>x. ''?''),
      repr_str = (\<lambda>s. CHR 0x27 # s @ [CHR 0x27]),
      json_loads = test_loads,
      json_dumps = test_dumps,
      http = (\<lambda>log r. reply)\<rparr>"

text \<open>
  Two vehicle proxies for the examples: one holding an older snapshot with a key the
  daemon no longer sends, one holding the snapshot of the round-trip example. Neither
  refreshes by itself.
\<close>

definition stale_goat :: "real Goat" where
  "stale_goat =
     \<lparr>goatd = Goatd_default, auto_update = False,
      cached_goat = PDict [(''heading'', PFloat 10), (''depth'', PFloat 3)]\<rparr>"

definition fresh_goat :: "real Goat" where
  "fresh_goat = \<lparr>goatd = Goatd_default, auto_update = False, cached_goat = snapshot_example\<rparr>"

section \<open>Decimal rendering and the shape of the requests\<close>

text \<open>
  \<open>str_nat\<close> writes decimal digits only, and reading them back gives the number: the
  \<^verbatim>\<open>{1}\<close> field of a URL is the port in decimal.
\<close>

lemma str_nat_digits: "list_all is_digit (str_nat n)"
proof (induction n rule: str_nat.induct)
  case (1 n)
  show ?case
  proof (cases "n < 10")
    case True
    then show ?thesis
      by (subst str_nat.simps) (simp add: is_digit_def)
  next
    case False
    have "n mod 10 < 10" by simp
    then have "is_digit (char_of (48 + n mod 10))"
      unfolding is_digit_def by simp
    with False 1 show ?thesis
      by (subst str_nat.simps) simp
  qed
qed

lemma nat_of_digits_snoc: "nat_of_digits (s @ [c]) = 10 * nat_of_digits s + (of_char c - 48)"
  by (simp add: nat_of_digits_def)

lemma nat_of_digits_str_nat: "nat_of_digits (str_nat n) = n"
proof (induction n rule: str_nat.induct)
  case (1 n)
  show ?case
  proof (cases "n < 10")
    case True
    then show ?thesis
      by (subst str_nat.simps) (simp add: nat_of_digits_def)
  next
    case False
    have "of_char (char_of (48 + n mod 10)) = (48 + n mod 10 :: nat)"
      by simp
    with False 1 show ?thesis
      by (subst str_nat.simps) (simp add: nat_of_digits_snoc)
  qed
qed

lemma Goatd_url_Inr: "Goatd_url E self endpoint = Inr (base_url self @ endpoint)"
  by (simp add: Goatd_url_def py_format_def py_str_def cons_out_def app_out_def
      is_digit_def nat_of_digits_def base_url_def)

lemma Goatd_get_eq:
  "Goatd_get E g path w =
     (case http E w (get_request g path) of
        Inl e \<Rightarrow> (Inl e, w @ [get_request g path])
      | Inr body \<Rightarrow> (json_loads E body, w @ [get_request g path]))"
  by (simp add: Goatd_get_def Goatd_url_Inr urlopen_def get_request_def split: sum.splits)

lemma Goatd_post_eq:
  "Goatd_post E g content path w =
     (case http E w (post_request g path (json_dumps E content)) of
        Inl e \<Rightarrow> (Inl e, w @ [post_request g path (json_dumps E content)])
      | Inr body \<Rightarrow> (json_loads E body, w @ [post_request g path (json_dumps E content)]))"
  by (simp add: Goatd_post_def Goatd_url_Inr urlopen_def post_request_def Let_def split: sum.splits)

section \<open>Helper facts\<close>

lemma outs [simp]:
  "result_of (r, s, w) = r" "self_after (r, s, w) = s" "world_after (r, s, w) = w"
  by (simp_all add: result_of_def self_after_def world_after_def)

lemma Goat_update_eq:
  "Goat_update E self w =
     (case http E w (get_request (goatd self) ''/goat'') of
        Inl e \<Rightarrow> (Inl e, self, w @ [get_request (goatd self) ''/goat''])
      | Inr body \<Rightarrow>
          (case json_loads E body of
             Inl e \<Rightarrow> (Inl e, self, w @ [get_request (goatd self) ''/goat''])
           | Inr j \<Rightarrow> (Inr (), self\<lparr>cached_goat := j\<rparr>, w @ [get_request (goatd self) ''/goat''])))"
  by (simp add: Goat_update_def Goatd_get_eq split: sum.splits)

lemma dec_auto:
  "auto_update self \<Longrightarrow> world_after (auto_update_dec f E self w) = w @ [get_request (goatd self) ''/goat'']"
  by (simp add: auto_update_dec_def Goat_update_eq split: sum.splits)

lemma dec_auto_ok:
  "auto_update self \<Longrightarrow> Goat_update E self w = (Inr u, s', w') \<Longrightarrow>
     auto_update_dec f E self w = (f E s', s', w')"
  by (simp add: auto_update_dec_def)

lemma dec_manual:
  "\<not> auto_update self \<Longrightarrow> auto_update_dec f E self w = (f E self, self, w)"
  by (simp add: auto_update_dec_def)

lemmas Goat_props = Goat_heading_def Goat_wind_def Goat_position_def
  Goat_target_rudder_angle_def Goat_target_sail_angle_def

lemma py_get_dict [simp]:
  "py_get (PDict kvs) key = Inr (case map_of kvs key of None \<Rightarrow> PNone | Some v \<Rightarrow> v)"
  by (simp add: py_get_def py_get_default_def)

lemma py_float_float [simp]: "py_float E (PFloat a) = Inr a"
  by (simp add: py_float_def)

lemma Behaviour_start_eq:
  "Behaviour_start E self name w =
     (case http E w (post_request (behaviour_goatd self) ''/behaviours''
                       (json_dumps E (PDict [(''active'', name)]))) of
        Inl e \<Rightarrow> (Inl e, self, w @ [post_request (behaviour_goatd self) ''/behaviours''
                                      (json_dumps E (PDict [(''active'', name)]))])
      | Inr body \<Rightarrow>
          (case json_loads E body of
             Inl e \<Rightarrow> (Inl e, self, w @ [post_request (behaviour_goatd self) ''/behaviours''
                                           (json_dumps E (PDict [(''active'', name)]))])
           | Inr d \<Rightarrow>
               (case py_get d ''active'' of
                  Inl e \<Rightarrow> (Inl e, self, w @ [post_request (behaviour_goatd self) ''/behaviours''
                                                (json_dumps E (PDict [(''active'', name)]))])
                | Inr current \<Rightarrow>
                    (Inr (PStr (case current of
                                  PNone \<Rightarrow> ''no behaviour running''
                                | _ \<Rightarrow> ''started '' @ py_str E current)),
                     self,
                     w @ [post_request (behaviour_goatd self) ''/behaviours''
                            (json_dumps E (PDict [(''active'', name)]))]))))"
  by (simp add: Behaviour_start_def Goatd_post_eq py_format_def cons_out_def app_out_def
      split: sum.splits pyval.splits)

lemma test_json [simp]:
  "json_loads (answering reply) = test_loads"
  "json_dumps (answering reply) = test_dumps"
  "http (answering reply) = (\<lambda>log r. reply)"
  "float_of_int (answering reply) = (\<lambda>i. Inr (of_int i))"
  "float_of_str (answering reply) = (\<lambda>s. Inl ValueError)"
  by (simp_all add: answering_def)

lemma test_loads_snapshot: "test_loads snapshot_text = Inr snapshot_example"
  by (simp add: test_loads_def)

lemma bodies_snapshot:
  assumes "cached_goat self = snapshot_example"
  shows "heading_body E self = Inr (Bearing (PFloat 90))"
    and "wind_body E self = Inr (Wind (Bearing (PFloat 45)) (PFloat 5) (Bearing (PFloat 30)))"
    and "position_body E self = Inr (Point (PFloat 51.5) (PFloat (- 0.1)))"
    and "target_rudder_angle_body E self = Inr (- 10)"
    and "target_sail_angle_body E self = Inr 20"
  using assms
  by (simp_all add: heading_body_def wind_body_def position_body_def
      target_rudder_angle_body_def target_sail_angle_body_def snapshot_example_def
      py_unpack2_def py_iter_def)

section \<open>Formatting of URLs\<close>

text \<open>
  Claim C6. For every host, port and path, \<^verbatim>\<open>url(path)\<close> is exactly the text
  \<^verbatim>\<open>http://{host}:{port}{path}\<close>: the host, a colon, the port in decimal and the path as
  given, with no slash added or removed. With the defaults of the constructor and the
  path \<^verbatim>\<open>/goat\<close> this is \<^verbatim>\<open>http://localhost:2222/goat\<close>.
\<close>

theorem url_format:
  "Goatd_url E self path = Inr (''http://'' @ host self @ '':'' @ str_int (port self) @ path)
   \<and> Goatd_url E (Goatd_init ''localhost'' 2222) ''/goat'' = Inr ''http://localhost:2222/goat''"
proof
  show "Goatd_url E self path = Inr (''http://'' @ host self @ '':'' @ str_int (port self) @ path)"
    by (simp add: Goatd_url_Inr base_url_def)
  have "str_int 2222 = ''2222''"
    by code_simp
  then show "Goatd_url E (Goatd_init ''localhost'' 2222) ''/goat'' = Inr ''http://localhost:2222/goat''"
    by (simp add: Goatd_url_Inr base_url_def Goatd_init_def)
qed

section \<open>The refresh policy of the properties\<close>

text \<open>
  Claim C1. With \<^verbatim>\<open>auto_update\<close> set, a read of \<^verbatim>\<open>heading\<close>, \<^verbatim>\<open>wind\<close>, \<^verbatim>\<open>position\<close>,
  \<^verbatim>\<open>target_rudder_angle\<close> or \<^verbatim>\<open>target_sail_angle\<close> adds exactly one request to the world,
  the GET of \<^verbatim>\<open>/goat\<close>, and when that refresh succeeds the value is read from the
  object as the refresh left it. With \<^verbatim>\<open>auto_update\<close> unset, a read sends nothing,
  leaves the object as it is and reads the snapshot already cached.
\<close>

theorem property_read_policy:
  "(auto_update self \<longrightarrow>
      world_after (Goat_heading E self w) = w @ [get_request (goatd self) ''/goat''] \<and>
      world_after (Goat_wind E self w) = w @ [get_request (goatd self) ''/goat''] \<and>
      world_after (Goat_position E self w) = w @ [get_request (goatd self) ''/goat''] \<and>
      world_after (Goat_target_rudder_angle E self w) = w @ [get_request (goatd self) ''/goat''] \<and>
      world_after (Goat_target_sail_angle E self w) = w @ [get_request (goatd self) ''/goat''])
   \<and> (auto_update self \<longrightarrow> Goat_update E self w = (Inr (), s', w') \<longrightarrow>
      Goat_heading E self w = (heading_body E s', s', w') \<and>
      Goat_wind E self w = (wind_body E s', s', w') \<and>
      Goat_position E self w = (position_body E s', s', w') \<and>
      Goat_target_rudder_angle E self w = (target_rudder_angle_body E s', s', w') \<and>
      Goat_target_sail_angle E self w = (target_sail_angle_body E s', s', w'))
   \<and> (\<not> auto_update self \<longrightarrow>
      Goat_heading E self w = (heading_body E self, self, w) \<and>
      Goat_wind E self w = (wind_body E self, self, w) \<and>
      Goat_position E self w = (position_body E self, self, w) \<and>
      Goat_target_rudder_angle E self w = (target_rudder_angle_body E self, self, w) \<and>
      Goat_target_sail_angle E self w = (target_sail_angle_body E self, self, w))"
proof (intro conjI impI)
  assume "auto_update self"
  then show "world_after (Goat_heading E self w) = w @ [get_request (goatd self) ''/goat'']"
    and "world_after (Goat_wind E self w) = w @ [get_request (goatd self) ''/goat'']"
    and "world_after (Goat_position E self w) = w @ [get_request (goatd self) ''/goat'']"
    and "world_after (Goat_target_rudder_angle E self w) = w @ [get_request (goatd self) ''/goat'']"
    and "world_after (Goat_target_sail_angle E self w) = w @ [get_request (goatd self) ''/goat'']"
    by (simp_all add: Goat_props dec_auto)
next
  assume "auto_update self" and "Goat_update E self w = (Inr (), s', w')"
  then show "Goat_heading E self w = (heading_body E s', s', w')"
    and "Goat_wind E self w = (wind_body E s', s', w')"
    and "Goat_position E self w = (position_body E s', s', w')"
    and "Goat_target_rudder_angle E self w = (target_rudder_angle_body E s', s', w')"
    and "Goat_target_sail_angle E self w = (target_sail_angle_body E s', s', w')"
    by (simp_all add: Goat_props dec_auto_ok)
next
  assume "\<not> auto_update self"
  then show "Goat_heading E self w = (heading_body E self, self, w)"
    and "Goat_wind E self w = (wind_body E self, self, w)"
    and "Goat_position E self w = (position_body E self, self, w)"
    and "Goat_target_rudder_angle E self w = (target_rudder_angle_body E self, self, w)"
    and "Goat_target_sail_angle E self w = (target_sail_angle_body E self, self, w)"
    by (simp_all add: Goat_props dec_manual)
qed

text \<open>The theorem at concrete inputs.\<close>

theorem property_read_policy_witness:
  "auto_update (Goat_init None True :: real Goat)
   \<and> world_after (Goat_wind (answering (Inr snapshot_text)) (Goat_init None True) [])
       = [get_request Goatd_default ''/goat'']
   \<and> Goat_update (answering (Inr snapshot_text)) (Goat_init None True) []
       = (Inr (), (Goat_init None True)\<lparr>cached_goat := snapshot_example\<rparr>,
          [get_request Goatd_default ''/goat''])
   \<and> Goat_heading (answering (Inr snapshot_text)) (Goat_init None True) []
       = (Inr (Bearing (PFloat 90)), (Goat_init None True)\<lparr>cached_goat := snapshot_example\<rparr>,
          [get_request Goatd_default ''/goat''])
   \<and> \<not> auto_update (Goat_init None False :: real Goat)
   \<and> Goat_heading (answering (Inr snapshot_text)) (Goat_init None False) []
       = (Inl TypeError, Goat_init None False, [])"
proof -
  let ?E = "answering (Inr snapshot_text)"
  let ?a = "Goat_init None True :: real Goat"
  let ?m = "Goat_init None False :: real Goat"
  let ?a' = "?a\<lparr>cached_goat := snapshot_example\<rparr>"
  let ?w' = "[get_request Goatd_default ''/goat'']"
  have a: "auto_update ?a" and m: "\<not> auto_update ?m"
    by (simp_all add: Goat_init_def)
  have u: "Goat_update ?E ?a [] = (Inr (), ?a', ?w')"
    by (simp add: Goat_update_eq test_loads_snapshot Goat_init_def)
  have b: "heading_body ?E ?a' = Inr (Bearing (PFloat 90))"
    by (simp add: bodies_snapshot)
  have e: "heading_body ?E ?m = Inl TypeError"
    by (simp add: heading_body_def Goat_init_def py_get_def py_get_default_def py_float_def)
  from property_read_policy [of ?a ?E "[]" ?a' ?w'] a u
  have "world_after (Goat_wind ?E ?a []) = [] @ [get_request (goatd ?a) ''/goat'']"
    and "Goat_heading ?E ?a [] = (heading_body ?E ?a', ?a', ?w')"
    by blast+
  moreover from property_read_policy [of ?m ?E "[]"] m
  have "Goat_heading ?E ?m [] = (heading_body ?E ?m, ?m, [])"
    by blast
  ultimately show ?thesis
    using a m u b e by (simp add: Goat_init_def)
qed

section \<open>Refreshing the snapshot\<close>

text \<open>
  Claim C2. \<^verbatim>\<open>update()\<close> sends one GET of \<^verbatim>\<open>/goat\<close>. When the request fails, or its body
  does not decode, the call raises that exception and the object, its cached snapshot
  included, is the one before the call. When the body decodes to \<open>j\<close>, the cached
  snapshot is \<open>j\<close> and nothing of the old snapshot is kept; host, port and the
  \<^verbatim>\<open>auto_update\<close> flag stay.
\<close>

theorem refresh_replaces_or_retains:
  "(http E w (get_request (goatd self) ''/goat'') = Inl e \<longrightarrow>
      Goat_update E self w = (Inl e, self, w @ [get_request (goatd self) ''/goat'']))
   \<and> (http E w (get_request (goatd self) ''/goat'') = Inr body \<longrightarrow> json_loads E body = Inl e \<longrightarrow>
      Goat_update E self w = (Inl e, self, w @ [get_request (goatd self) ''/goat'']))
   \<and> (http E w (get_request (goatd self) ''/goat'') = Inr body \<longrightarrow> json_loads E body = Inr j \<longrightarrow>
      Goat_update E self w =
        (Inr (), \<lparr>goatd = goatd self, auto_update = auto_update self, cached_goat = j\<rparr>,
         w @ [get_request (goatd self) ''/goat'']))"
  by (simp add: Goat_update_eq)

text \<open>The theorem at concrete inputs.\<close>

theorem refresh_replaces_or_retains_witness:
  "http (answering (Inl URLError)) [] (get_request (goatd stale_goat) ''/goat'') = Inl URLError
   \<and> Goat_update (answering (Inl URLError)) stale_goat []
       = (Inl URLError, stale_goat, [get_request Goatd_default ''/goat''])
   \<and> http (answering (Inr ''Bad Gateway'')) [] (get_request (goatd stale_goat) ''/goat'') = Inr ''Bad Gateway''
   \<and> json_loads (answering (Inr ''Bad Gateway'')) ''Bad Gateway'' = Inl JSONDecodeError
   \<and> Goat_update (answering (Inr ''Bad Gateway'')) stale_goat []
       = (Inl JSONDecodeError, stale_goat, [get_request Goatd_default ''/goat''])
   \<and> http (answering (Inr snapshot_text)) [] (get_request (goatd stale_goat) ''/goat'') = Inr snapshot_text
   \<and> json_loads (answering (Inr snapshot_text)) snapshot_text = Inr snapshot_example
   \<and> Goat_update (answering (Inr snapshot_text)) stale_goat []
       = (Inr (), \<lparr>goatd = Goatd_default, auto_update = False, cached_goat = snapshot_example\<rparr>,
          [get_request Goatd_default ''/goat''])"
proof -
  let ?r = "get_request (goatd stale_goat) ''/goat''"
  have g: "goatd stale_goat = Goatd_default" "auto_update stale_goat = False"
    by (simp_all add: stale_goat_def)
  have h1: "http (answering (Inl URLError)) [] ?r = Inl URLError" by simp
  have h2: "http (answering (Inr ''Bad Gateway'')) [] ?r = Inr ''Bad Gateway''" by simp
  have j2: "json_loads (answering (Inr ''Bad Gateway'')) ''Bad Gateway'' = Inl JSONDecodeError"
    by (simp add: test_loads_def snapshot_text_def)
  have h3: "http (answering (Inr snapshot_text)) [] ?r = Inr snapshot_text" by simp
  have j3: "json_loads (answering (Inr snapshot_text)) snapshot_text = Inr snapshot_example"
    by (simp add: test_loads_snapshot)
  from refresh_replaces_or_retains [of "answering (Inl URLError)" "[]" stale_goat URLError] h1
  have "Goat_update (answering (Inl URLError)) stale_goat [] = (Inl URLError, stale_goat, [] @ [?r])"
    by blast
  moreover
  from refresh_replaces_or_retains
    [of "answering (Inr ''Bad Gateway'')" "[]" stale_goat JSONDecodeError "''Bad Gateway''"] h2 j2
  have "Goat_update (answering (Inr ''Bad Gateway'')) stale_goat [] = (Inl JSONDecodeError, stale_goat, [] @ [?r])"
    by blast
  moreover
  from refresh_replaces_or_retains
    [of "answering (Inr snapshot_text)" "[]" stale_goat _ snapshot_text snapshot_example] h3 j3
  have "Goat_update (answering (Inr snapshot_text)) stale_goat []
          = (Inr (), \<lparr>goatd = goatd stale_goat, auto_update = auto_update stale_goat,
                      cached_goat = snapshot_example\<rparr>, [] @ [?r])"
    by blast
  ultimately show ?thesis
    using h1 h2 j2 h3 j3 g by simp
qed

section \<open>The version of the daemon\<close>

text \<open>
  Claim C3, as stated, fails. It says that \<^verbatim>\<open>version\<close> gives \<^verbatim>\<open>None\<close> whenever the
  nested shape is absent, also when the key \<^verbatim>\<open>goatd\<close> is missing. Against a daemon
  that answers \<^verbatim>\<open>{}\<close> to GET \<^verbatim>\<open>/\<close>, \<^verbatim>\<open>content.get('goatd')\<close> is \<^verbatim>\<open>None\<close>, and
  \<^verbatim>\<open>None.get('version')\<close> raises AttributeError.
\<close>

theorem version_missing_goatd_raises:
  "Goatd_get (answering (Inr ''{}'')) Goatd_default ''/'' []
     = (Inr (PDict []), [get_request Goatd_default ''/''])
   \<and> Goatd_version (answering (Inr ''{}'')) Goatd_default []
     = (Inl AttributeError, [get_request Goatd_default ''/''])"
  by (simp add: Goatd_version_def Goatd_get_eq test_loads_def snapshot_text_def
      py_get_def py_get_default_def)

text \<open>
  Claim C3, amended. For every response to GET \<^verbatim>\<open>/\<close> that is an object whose member
  \<^verbatim>\<open>goatd\<close> is an object without a key \<^verbatim>\<open>version\<close>, the property \<^verbatim>\<open>version\<close> returns
  \<^verbatim>\<open>None\<close> and does not raise.
\<close>

theorem version_none_without_version_key:
  "Goatd_get E self ''/'' w = (Inr (PDict kvs), w') \<Longrightarrow>
   map_of kvs ''goatd'' = Some (PDict g) \<Longrightarrow>
   map_of g ''version'' = None \<Longrightarrow>
   Goatd_version E self w = (Inr PNone, w')"
  by (simp add: Goatd_version_def)

text \<open>The theorem at concrete inputs.\<close>

theorem version_none_without_version_key_witness:
  \<open>Goatd_get (answering (Inr ''{"goatd": {}}'')) Goatd_default ''/'' []
     = (Inr (PDict [(''goatd'', PDict [])]), [get_request Goatd_default ''/''])
   \<and> map_of [(''goatd'', PDict [] :: real pyval)] ''goatd'' = Some (PDict [])
   \<and> map_of ([] :: (string \<times> real pyval) list) ''version'' = None
   \<and> Goatd_version (answering (Inr ''{"goatd": {}}'')) Goatd_default []
     = (Inr PNone, [get_request Goatd_default ''/''])\<close>
proof -
  let ?E = \<open>answering (Inr ''{"goatd": {}}'')\<close>
  have g: "Goatd_get ?E Goatd_default ''/'' []
             = (Inr (PDict [(''goatd'', PDict [])]), [get_request Goatd_default ''/''])"
    by (simp add: Goatd_get_eq test_loads_def snapshot_text_def)
  have k: "map_of [(''goatd'', PDict [] :: real pyval)] ''goatd'' = Some (PDict [])"
    and v: "map_of ([] :: (string \<times> real pyval) list) ''version'' = None"
    by simp_all
  from version_none_without_version_key [OF g k v] g k v show ?thesis
    by simp
qed

section \<open>Starting and stopping behaviours\<close>

text \<open>
  Claim C5. \<^verbatim>\<open>start(name)\<close> sends one POST of \<^verbatim>\<open>{"active": name}\<close> to \<^verbatim>\<open>/behaviours\<close>.
  When the response is an object, the result is decided by its field \<^verbatim>\<open>active\<close>: a
  value other than \<^verbatim>\<open>None\<close> gives the text \<^verbatim>\<open>started\<close>, a space and the \<^verbatim>\<open>str\<close> of that
  value (the value of the response, not \<open>name\<close>); \<^verbatim>\<open>null\<close>, or no such field, gives
  the text \<^verbatim>\<open>no behaviour running\<close>.
\<close>

theorem start_reports_active:
  "world_after (Behaviour_start E self name w)
     = w @ [post_request (behaviour_goatd self) ''/behaviours''
              (json_dumps E (PDict [(''active'', name)]))]
   \<and> (Goatd_post E (behaviour_goatd self) (PDict [(''active'', name)]) ''/behaviours'' w
         = (Inr (PDict kvs), w') \<longrightarrow>
       (map_of kvs ''active'' = Some v \<and> v \<noteq> PNone \<longrightarrow>
          Behaviour_start E self name w = (Inr (PStr (''started '' @ py_str E v)), self, w'))
       \<and> (map_of kvs ''active'' = Some PNone \<or> map_of kvs ''active'' = None \<longrightarrow>
          Behaviour_start E self name w = (Inr (PStr ''no behaviour running''), self, w')))"
proof (intro conjI impI)
  show "world_after (Behaviour_start E self name w)
     = w @ [post_request (behaviour_goatd self) ''/behaviours''
              (json_dumps E (PDict [(''active'', name)]))]"
    by (simp add: Behaviour_start_eq split: sum.splits)
next
  assume p: "Goatd_post E (behaviour_goatd self) (PDict [(''active'', name)]) ''/behaviours'' w
         = (Inr (PDict kvs), w')"
    and a: "map_of kvs ''active'' = Some v \<and> v \<noteq> PNone"
  then show "Behaviour_start E self name w = (Inr (PStr (''started '' @ py_str E v)), self, w')"
    by (cases v) (simp_all add: Behaviour_start_def py_format_def cons_out_def app_out_def)
next
  assume p: "Goatd_post E (behaviour_goatd self) (PDict [(''active'', name)]) ''/behaviours'' w
         = (Inr (PDict kvs), w')"
    and a: "map_of kvs ''active'' = Some PNone \<or> map_of kvs ''active'' = None"
  then show "Behaviour_start E self name w = (Inr (PStr ''no behaviour running''), self, w')"
    by (auto simp add: Behaviour_start_def)
qed

text \<open>The theorem at concrete inputs.\<close>

theorem start_reports_active_witness:
  \<open>Goatd_post (answering (Inr ''{"active": "tack"}'')) (behaviour_goatd (Behaviour_init None))
       (PDict [(''active'', PStr ''tack'')]) ''/behaviours'' []
     = (Inr (PDict [(''active'', PStr ''tack'')]),
        [post_request Goatd_default ''/behaviours'' ''{"active": "tack"}''])
   \<and> Behaviour_start (answering (Inr ''{"active": "tack"}'')) (Behaviour_init None) (PStr ''tack'') []
     = (Inr (PStr ''started tack''), Behaviour_init None,
        [post_request Goatd_default ''/behaviours'' ''{"active": "tack"}''])
   \<and> Goatd_post (answering (Inr ''{"active": null}'')) (behaviour_goatd (Behaviour_init None))
       (PDict [(''active'', PNone)]) ''/behaviours'' []
     = (Inr (PDict [(''active'', PNone)]),
        [post_request Goatd_default ''/behaviours'' ''{"active": null}''])
   \<and> Behaviour_start (answering (Inr ''{"active": null}'')) (Behaviour_init None) PNone []
     = (Inr (PStr ''no behaviour running''), Behaviour_init None,
        [post_request Goatd_default ''/behaviours'' ''{"active": null}''])\<close>
proof -
  let ?E1 = \<open>answering (Inr ''{"active": "tack"}'')\<close>
  let ?E2 = \<open>answering (Inr ''{"active": null}'')\<close>
  let ?b = "Behaviour_init None"
  let ?w1 = \<open>[post_request Goatd_default ''/behaviours'' ''{"active": "tack"}'']\<close>
  let ?w2 = \<open>[post_request Goatd_default ''/behaviours'' ''{"active": null}'']\<close>
  have p1: "Goatd_post ?E1 (behaviour_goatd ?b) (PDict [(''active'', PStr ''tack'')]) ''/behaviours'' []
              = (Inr (PDict [(''active'', PStr ''tack'')]), ?w1)"
    by (simp add: Goatd_post_eq Behaviour_init_def test_loads_def test_dumps_def snapshot_text_def)
  have p2: "Goatd_post ?E2 (behaviour_goatd ?b) (PDict [(''active'', PNone)]) ''/behaviours'' []
              = (Inr (PDict [(''active'', PNone)]), ?w2)"
    by (simp add: Goatd_post_eq Behaviour_init_def test_loads_def test_dumps_def snapshot_text_def)
  have k1: "map_of [(''active'', PStr ''tack'' :: real pyval)] ''active'' = Some (PStr ''tack'')
              \<and> (PStr ''tack'' :: real pyval) \<noteq> PNone"
    by simp
  have k2: "map_of [(''active'', PNone :: real pyval)] ''active'' = Some PNone
              \<or> map_of [(''active'', PNone :: real pyval)] ''active'' = None"
    by simp
  from start_reports_active [of ?E1 ?b "PStr ''tack''" "[]" "[(''active'', PStr ''tack'')]" ?w1 "PStr ''tack''"] p1 k1
  have "Behaviour_start ?E1 ?b (PStr ''tack'') []
          = (Inr (PStr (''started '' @ py_str ?E1 (PStr ''tack''))), ?b, ?w1)"
    by blast
  moreover
  from start_reports_active [of ?E2 ?b PNone "[]" "[(''active'', PNone)]" ?w2] p2 k2
  have "Behaviour_start ?E2 ?b PNone [] = (Inr (PStr ''no behaviour running''), ?b, ?w2)"
    by blast
  ultimately show ?thesis
    using p1 p2 by (simp add: py_str_def)
qed

text \<open>
  Claim C4, as stated, fails. It says that \<^verbatim>\<open>stop()\<close> produces the same result value as
  \<^verbatim>\<open>start(None)\<close>. Against a daemon that answers \<^verbatim>\<open>{"active": null}\<close>, \<^verbatim>\<open>start(None)\<close>
  returns the string \<^verbatim>\<open>no behaviour running\<close>, while \<^verbatim>\<open>stop()\<close>, which calls
  \<^verbatim>\<open>self.start(None)\<close> without returning its value, returns \<^verbatim>\<open>None\<close>.
\<close>

theorem stop_differs_from_start_none:
  \<open>Behaviour_start (answering (Inr ''{"active": null}'')) (Behaviour_init None) PNone []
     = (Inr (PStr ''no behaviour running''), Behaviour_init None,
        [post_request Goatd_default ''/behaviours'' ''{"active": null}''])
   \<and> Behaviour_stop (answering (Inr ''{"active": null}'')) (Behaviour_init None) []
     = (Inr PNone, Behaviour_init None,
        [post_request Goatd_default ''/behaviours'' ''{"active": null}''])
   \<and> result_of (Behaviour_stop (answering (Inr ''{"active": null}'')) (Behaviour_init None) [])
     \<noteq> result_of (Behaviour_start (answering (Inr ''{"active": null}'')) (Behaviour_init None) PNone [])\<close>
  by (simp add: Behaviour_stop_def Behaviour_start_eq Behaviour_init_def test_loads_def
      test_dumps_def snapshot_text_def)

text \<open>
  Claim C4, amended. For every controller and every daemon, \<^verbatim>\<open>stop()\<close> issues the same
  request as \<^verbatim>\<open>start(None)\<close>, one POST of \<^verbatim>\<open>{"active": null}\<close> to \<^verbatim>\<open>/behaviours\<close>, leaves
  the controller as it is, and raises exactly the exception \<^verbatim>\<open>start(None)\<close> raises;
  where \<^verbatim>\<open>start(None)\<close> returns its string, \<^verbatim>\<open>stop()\<close> returns \<^verbatim>\<open>None\<close>.
\<close>

theorem stop_posts_like_start_none:
  "world_after (Behaviour_stop E self w) = world_after (Behaviour_start E self PNone w)
   \<and> world_after (Behaviour_stop E self w)
       = w @ [post_request (behaviour_goatd self) ''/behaviours''
                (json_dumps E (PDict [(''active'', PNone)]))]
   \<and> self_after (Behaviour_stop E self w) = self
   \<and> result_of (Behaviour_stop E self w)
       = (case result_of (Behaviour_start E self PNone w) of
            Inl e \<Rightarrow> Inl e
          | Inr s \<Rightarrow> Inr PNone)"
  by (simp add: Behaviour_stop_def Behaviour_start_eq split: sum.splits)

section \<open>Setting the rudder and the sail\<close>

text \<open>
  Claim C7. When \<^verbatim>\<open>float(angle)\<close> succeeds with the float \<open>a\<close>, \<^verbatim>\<open>set_rudder(angle)\<close>
  sends one POST to \<^verbatim>\<open>/rudder\<close> and \<^verbatim>\<open>set_sail(angle)\<close> one POST to \<^verbatim>\<open>/sail\<close>, each with
  the body \<^verbatim>\<open>{"value": a}\<close> where the value is the float, also when \<open>angle\<close> was an
  integer. Neither changes the object, so the cached snapshot stays and no refresh is
  sent. When the response is an object with a field \<^verbatim>\<open>result\<close>, that field is the
  value returned.
\<close>

theorem setters_post_float:
  "py_float E angle = Inr a \<Longrightarrow>
     world_after (Goat_set_rudder E self angle w)
       = w @ [post_request (goatd self) ''/rudder'' (json_dumps E (PDict [(''value'', PFloat a)]))]
     \<and> world_after (Goat_set_sail E self angle w)
       = w @ [post_request (goatd self) ''/sail'' (json_dumps E (PDict [(''value'', PFloat a)]))]
     \<and> self_after (Goat_set_rudder E self angle w) = self
     \<and> self_after (Goat_set_sail E self angle w) = self
     \<and> (Goatd_post E (goatd self) (PDict [(''value'', PFloat a)]) ''/rudder'' w
           = (Inr (PDict kvs), w') \<longrightarrow> map_of kvs ''result'' = Some r \<longrightarrow>
         result_of (Goat_set_rudder E self angle w) = Inr r)
     \<and> (Goatd_post E (goatd self) (PDict [(''value'', PFloat a)]) ''/sail'' w
           = (Inr (PDict kvs), w') \<longrightarrow> map_of kvs ''result'' = Some r \<longrightarrow>
         result_of (Goat_set_sail E self angle w) = Inr r)"
  by (simp add: Goat_set_rudder_def Goat_set_sail_def Goatd_post_eq split: sum.splits)

text \<open>The theorem at concrete inputs.\<close>

theorem setters_post_float_witness:
  \<open>py_float (answering (Inr ''{"result": 10.0}'')) (PInt 10) = Inr 10
   \<and> Goatd_post (answering (Inr ''{"result": 10.0}'')) (goatd stale_goat)
        (PDict [(''value'', PFloat 10)]) ''/rudder'' []
      = (Inr (PDict [(''result'', PFloat 10)]),
         [post_request Goatd_default ''/rudder'' ''{"value": 10.0}''])
   \<and> Goatd_post (answering (Inr ''{"result": 10.0}'')) (goatd stale_goat)
        (PDict [(''value'', PFloat 10)]) ''/sail'' []
      = (Inr (PDict [(''result'', PFloat 10)]),
         [post_request Goatd_default ''/sail'' ''{"value": 10.0}''])
   \<and> Goat_set_rudder (answering (Inr ''{"result": 10.0}'')) stale_goat (PInt 10) []
      = (Inr (PFloat 10), stale_goat, [post_request Goatd_default ''/rudder'' ''{"value": 10.0}''])
   \<and> Goat_set_sail (answering (Inr ''{"result": 10.0}'')) stale_goat (PInt 10) []
      = (Inr (PFloat 10), stale_goat, [post_request Goatd_default ''/sail'' ''{"value": 10.0}''])\<close>
proof -
  let ?E = \<open>answering (Inr ''{"result": 10.0}'')\<close>
  let ?kvs = "[(''result'', PFloat 10 :: real pyval)]"
  have f: "py_float ?E (PInt 10) = Inr 10"
    by (simp add: py_float_def)
  have d: \<open>json_dumps ?E (PDict [(''value'', PFloat 10)]) = ''{"value": 10.0}''\<close>
    by (simp add: test_dumps_def)
  have g: "goatd stale_goat = Goatd_default"
    by (simp add: stale_goat_def)
  have pr: \<open>Goatd_post ?E (goatd stale_goat) (PDict [(''value'', PFloat 10)]) ''/rudder'' []
              = (Inr (PDict ?kvs), [post_request Goatd_default ''/rudder'' ''{"value": 10.0}''])\<close>
    by (simp add: Goatd_post_eq g test_loads_def test_dumps_def snapshot_text_def)
  have ps: \<open>Goatd_post ?E (goatd stale_goat) (PDict [(''value'', PFloat 10)]) ''/sail'' []
              = (Inr (PDict ?kvs), [post_request Goatd_default ''/sail'' ''{"value": 10.0}''])\<close>
    by (simp add: Goatd_post_eq g test_loads_def test_dumps_def snapshot_text_def)
  have k: "map_of ?kvs ''result'' = Some (PFloat 10)"
    by simp
  note r = setters_post_float [OF f, of stale_goat "[]" ?kvs _ "PFloat 10"]
  from r [of \<open>[post_request Goatd_default ''/rudder'' ''{"value": 10.0}'']\<close>] pr k
  have "result_of (Goat_set_rudder ?E stale_goat (PInt 10) []) = Inr (PFloat 10)"
    and "world_after (Goat_set_rudder ?E stale_goat (PInt 10) [])
           = [] @ [post_request (goatd stale_goat) ''/rudder'' (json_dumps ?E (PDict [(''value'', PFloat 10)]))]"
    and "self_after (Goat_set_rudder ?E stale_goat (PInt 10) []) = stale_goat"
    by blast+
  moreover
  from r [of \<open>[post_request Goatd_default ''/sail'' ''{"value": 10.0}'']\<close>] ps k
  have "result_of (Goat_set_sail ?E stale_goat (PInt 10) []) = Inr (PFloat 10)"
    and "world_after (Goat_set_sail ?E stale_goat (PInt 10) [])
           = [] @ [post_request (goatd stale_goat) ''/sail'' (json_dumps ?E (PDict [(''value'', PFloat 10)]))]"
    and "self_after (Goat_set_sail ?E stale_goat (PInt 10) []) = stale_goat"
    by blast+
  ultimately show ?thesis
    using f pr ps d g
    by (simp add: result_of_def self_after_def world_after_def prod_eq_iff)
qed

text \<open>
  Claim C10. When \<^verbatim>\<open>float(angle)\<close> raises, \<^verbatim>\<open>set_rudder(angle)\<close> and \<^verbatim>\<open>set_sail(angle)\<close>
  raise that exception with the world and the object untouched: nothing was sent to
  \<^verbatim>\<open>/rudder\<close> or \<^verbatim>\<open>/sail\<close>.
\<close>

theorem setters_reject_before_request:
  "py_float E angle = Inl e \<Longrightarrow>
     Goat_set_rudder E self angle w = (Inl e, self, w)
     \<and> Goat_set_sail E self angle w = (Inl e, self, w)"
  by (simp add: Goat_set_rudder_def Goat_set_sail_def)

text \<open>The theorem at concrete inputs.\<close>

theorem setters_reject_before_request_witness:
  "py_float (answering (Inr [])) PNone = Inl TypeError
   \<and> Goat_set_rudder (answering (Inr [])) stale_goat PNone [] = (Inl TypeError, stale_goat, [])
   \<and> Goat_set_sail (answering (Inr [])) stale_goat PNone [] = (Inl TypeError, stale_goat, [])
   \<and> py_float (answering (Inr [])) (PStr ''port'') = Inl ValueError
   \<and> Goat_set_rudder (answering (Inr [])) stale_goat (PStr ''port'') [] = (Inl ValueError, stale_goat, [])
   \<and> Goat_set_sail (answering (Inr [])) stale_goat (PStr ''port'') [] = (Inl ValueError, stale_goat, [])"
proof -
  have n: "py_float (answering (Inr [])) PNone = Inl TypeError"
    and s: "py_float (answering (Inr [])) (PStr ''port'') = Inl ValueError"
    by (simp_all add: py_float_def)
  from setters_reject_before_request [OF n, of stale_goat "[]"]
    setters_reject_before_request [OF s, of stale_goat "[]"] n s
  show ?thesis by simp
qed

section \<open>Reading the round-trip snapshot\<close>

text \<open>
  Claim C8. With the snapshot of the round-trip example cached, \<^verbatim>\<open>heading\<close> is
  \<^verbatim>\<open>Bearing(90.0)\<close>, \<^verbatim>\<open>wind\<close> is \<^verbatim>\<open>Wind(Bearing(45.0), 5.0, Bearing(30.0))\<close>, \<^verbatim>\<open>position\<close> is
  \<^verbatim>\<open>Point(51.5, -0.1)\<close>, \<^verbatim>\<open>target_rudder_angle\<close> is \<^verbatim>\<open>-10.0\<close> and \<^verbatim>\<open>target_sail_angle\<close> is
  \<^verbatim>\<open>20.0\<close>: for a proxy that does not refresh and holds that snapshot, and for a
  proxy that refreshes and receives it from the daemon.
\<close>

theorem snapshot_example_reads:
  "(\<not> auto_update self \<longrightarrow> cached_goat self = snapshot_example \<longrightarrow>
      Goat_heading E self w = (Inr (Bearing (PFloat 90)), self, w)
      \<and> Goat_wind E self w
          = (Inr (Wind (Bearing (PFloat 45)) (PFloat 5) (Bearing (PFloat 30))), self, w)
      \<and> Goat_position E self w = (Inr (Point (PFloat 51.5) (PFloat (- 0.1))), self, w)
      \<and> Goat_target_rudder_angle E self w = (Inr (- 10), self, w)
      \<and> Goat_target_sail_angle E self w = (Inr 20, self, w))
   \<and> (auto_update self \<longrightarrow>
      Goatd_get E (goatd self) ''/goat'' w = (Inr snapshot_example, w') \<longrightarrow>
      result_of (Goat_heading E self w) = Inr (Bearing (PFloat 90))
      \<and> result_of (Goat_wind E self w)
          = Inr (Wind (Bearing (PFloat 45)) (PFloat 5) (Bearing (PFloat 30)))
      \<and> result_of (Goat_position E self w) = Inr (Point (PFloat 51.5) (PFloat (- 0.1)))
      \<and> result_of (Goat_target_rudder_angle E self w) = Inr (- 10)
      \<and> result_of (Goat_target_sail_angle E self w) = Inr 20)"
proof (intro conjI impI)
  assume m: "\<not> auto_update self" and c: "cached_goat self = snapshot_example"
  show "Goat_heading E self w = (Inr (Bearing (PFloat 90)), self, w)"
    and "Goat_wind E self w
          = (Inr (Wind (Bearing (PFloat 45)) (PFloat 5) (Bearing (PFloat 30))), self, w)"
    and "Goat_position E self w = (Inr (Point (PFloat 51.5) (PFloat (- 0.1))), self, w)"
    and "Goat_target_rudder_angle E self w = (Inr (- 10), self, w)"
    and "Goat_target_sail_angle E self w = (Inr 20, self, w)"
    by (simp_all add: Goat_props dec_manual [OF m] bodies_snapshot [OF c])
next
  assume a: "auto_update self"
    and g: "Goatd_get E (goatd self) ''/goat'' w = (Inr snapshot_example, w')"
  have u: "Goat_update E self w = (Inr (), self\<lparr>cached_goat := snapshot_example\<rparr>, w')"
    by (simp add: Goat_update_def g)
  have c: "cached_goat (self\<lparr>cached_goat := snapshot_example\<rparr>) = snapshot_example"
    by simp
  show "result_of (Goat_heading E self w) = Inr (Bearing (PFloat 90))"
    and "result_of (Goat_wind E self w)
          = Inr (Wind (Bearing (PFloat 45)) (PFloat 5) (Bearing (PFloat 30)))"
    and "result_of (Goat_position E self w) = Inr (Point (PFloat 51.5) (PFloat (- 0.1)))"
    and "result_of (Goat_target_rudder_angle E self w) = Inr (- 10)"
    and "result_of (Goat_target_sail_angle E self w) = Inr 20"
    by (simp_all add: Goat_props dec_auto_ok [OF a u] bodies_snapshot [OF c])
qed

text \<open>The theorem at concrete inputs.\<close>

theorem snapshot_example_reads_witness:
  "\<not> auto_update fresh_goat \<and> cached_goat fresh_goat = snapshot_example
   \<and> Goat_heading (answering (Inl URLError)) fresh_goat [] = (Inr (Bearing (PFloat 90)), fresh_goat, [])
   \<and> Goat_wind (answering (Inl URLError)) fresh_goat []
       = (Inr (Wind (Bearing (PFloat 45)) (PFloat 5) (Bearing (PFloat 30))), fresh_goat, [])
   \<and> Goat_position (answering (Inl URLError)) fresh_goat []
       = (Inr (Point (PFloat 51.5) (PFloat (- 0.1))), fresh_goat, [])
   \<and> Goat_target_rudder_angle (answering (Inl URLError)) fresh_goat [] = (Inr (- 10), fresh_goat, [])
   \<and> Goat_target_sail_angle (answering (Inl URLError)) fresh_goat [] = (Inr 20, fresh_goat, [])
   \<and> auto_update (Goat_init None True :: real Goat)
   \<and> Goatd_get (answering (Inr snapshot_text)) (goatd (Goat_init None True :: real Goat)) ''/goat'' []
       = (Inr snapshot_example, [get_request Goatd_default ''/goat''])
   \<and> result_of (Goat_heading (answering (Inr snapshot_text)) (Goat_init None True) [])
       = Inr (Bearing (PFloat 90))
   \<and> result_of (Goat_position (answering (Inr snapshot_text)) (Goat_init None True) [])
       = Inr (Point (PFloat 51.5) (PFloat (- 0.1)))
   \<and> result_of (Goat_target_sail_angle (answering (Inr snapshot_text)) (Goat_init None True) [])
       = Inr 20"
proof -
  let ?a = "Goat_init None True :: real Goat"
  have m: "\<not> auto_update fresh_goat" and c: "cached_goat fresh_goat = snapshot_example"
    by (simp_all add: fresh_goat_def)
  have a: "auto_update ?a"
    by (simp add: Goat_init_def)
  have g: "Goatd_get (answering (Inr snapshot_text)) (goatd ?a) ''/goat'' []
             = (Inr snapshot_example, [get_request Goatd_default ''/goat''])"
    by (simp add: Goatd_get_eq test_loads_snapshot Goat_init_def)
  from snapshot_example_reads [of fresh_goat "answering (Inl URLError)" "[]"] m c
  have "Goat_heading (answering (Inl URLError)) fresh_goat [] = (Inr (Bearing (PFloat 90)), fresh_goat, [])
   \<and> Goat_wind (answering (Inl URLError)) fresh_goat []
       = (Inr (Wind (Bearing (PFloat 45)) (PFloat 5) (Bearing (PFloat 30))), fresh_goat, [])
   \<and> Goat_position (answering (Inl URLError)) fresh_goat []
       = (Inr (Point (PFloat 51.5) (PFloat (- 0.1))), fresh_goat, [])
   \<and> Goat_target_rudder_angle (answering (Inl URLError)) fresh_goat [] = (Inr (- 10), fresh_goat, [])
   \<and> Goat_target_sail_angle (answering (Inl URLError)) fresh_goat [] = (Inr 20, fresh_goat, [])"
    by blast
  moreover
  from snapshot_example_reads
    [of ?a "answering (Inr snapshot_text)" "[]" "[get_request Goatd_default ''/goat'']"] a g
  have "result_of (Goat_heading (answering (Inr snapshot_text)) ?a []) = Inr (Bearing (PFloat 90))
   \<and> result_of (Goat_position (answering (Inr snapshot_text)) ?a [])
       = Inr (Point (PFloat 51.5) (PFloat (- 0.1)))
   \<and> result_of (Goat_target_sail_angle (answering (Inr snapshot_text)) ?a []) = Inr 20"
    by blast
  ultimately show ?thesis
    using m c a g by blast
qed

section \<open>The home position\<close>

text \<open>
  Claim C9. When the response to GET \<^verbatim>\<open>/waypoints\<close> is an object, \<^verbatim>\<open>get_home_position\<close>
  returns \<^verbatim>\<open>None\<close>, without raising, if the object has no key \<^verbatim>\<open>home\<close>, and
  \<^verbatim>\<open>Point(lat, lon)\<close> if \<^verbatim>\<open>home\<close> is the two-element list \<^verbatim>\<open>[lat, lon]\<close>.
\<close>

theorem home_position_optional:
  "Goatd_get E (case g of None \<Rightarrow> Goatd_default | Some d \<Rightarrow> d) ''/waypoints'' w
     = (Inr (PDict kvs), w') \<Longrightarrow>
   (map_of kvs ''home'' = None \<longrightarrow> get_home_position E g w = (Inr None, w'))
   \<and> (map_of kvs ''home'' = Some (PList [lat, lon]) \<longrightarrow>
        get_home_position E g w = (Inr (Some (Point lat lon)), w'))"
  by (simp add: get_home_position_def py_get_default_def py_unpack2_def py_iter_def)

text \<open>The theorem at concrete inputs.\<close>

theorem home_position_optional_witness:
  \<open>Goatd_get (answering (Inr ''{"waypoints":[[1,2]]}'')) Goatd_default ''/waypoints'' []
     = (Inr (PDict [(''waypoints'', PList [PList [PInt 1, PInt 2]])]),
        [get_request Goatd_default ''/waypoints''])
   \<and> map_of [(''waypoints'', PList [PList [PInt 1, PInt 2 :: real pyval]])] ''home'' = None
   \<and> get_home_position (answering (Inr ''{"waypoints":[[1,2]]}'')) None []
     = (Inr None, [get_request Goatd_default ''/waypoints''])
   \<and> Goatd_get (answering (Inr ''{"waypoints":[],"home":[3,4]}'')) Goatd_default ''/waypoints'' []
     = (Inr (PDict [(''waypoints'', PList []), (''home'', PList [PInt 3, PInt 4])]),
        [get_request Goatd_default ''/waypoints''])
   \<and> map_of [(''waypoints'', PList []), (''home'', PList [PInt 3, PInt 4 :: real pyval])] ''home''
     = Some (PList [PInt 3, PInt 4])
   \<and> get_home_position (answering (Inr ''{"waypoints":[],"home":[3,4]}'')) None []
     = (Inr (Some (Point (PInt 3) (PInt 4))), [get_request Goatd_default ''/waypoints''])\<close>
proof -
  let ?E1 = \<open>answering (Inr ''{"waypoints":[[1,2]]}'')\<close>
  let ?E2 = \<open>answering (Inr ''{"waypoints":[],"home":[3,4]}'')\<close>
  let ?k1 = "[(''waypoints'', PList [PList [PInt 1, PInt 2 :: real pyval]])]"
  let ?k2 = "[(''waypoints'', PList []), (''home'', PList [PInt 3, PInt 4 :: real pyval])]"
  let ?w' = "[get_request Goatd_default ''/waypoints'']"
  have g1: "Goatd_get ?E1 (case None of None \<Rightarrow> Goatd_default | Some d \<Rightarrow> d) ''/waypoints'' []
              = (Inr (PDict ?k1), ?w')"
    by (simp add: Goatd_get_eq test_loads_def snapshot_text_def)
  have g2: "Goatd_get ?E2 (case None of None \<Rightarrow> Goatd_default | Some d \<Rightarrow> d) ''/waypoints'' []
              = (Inr (PDict ?k2), ?w')"
    by (simp add: Goatd_get_eq test_loads_def snapshot_text_def)
  have k1: "map_of ?k1 ''home'' = None"
    and k2: "map_of ?k2 ''home'' = Some (PList [PInt 3, PInt 4])"
    by simp_all
  from home_position_optional [OF g1] k1
  have "get_home_position ?E1 None [] = (Inr None, ?w')"
    by blast
  moreover
  from home_position_optional [OF g2, of "PInt 3" "PInt 4"] k2
  have "get_home_position ?E2 None [] = (Inr (Some (Point (PInt 3) (PInt 4))), ?w')"
    by blast
  ultimately show ?thesis
    using g1 g2 k1 k2 by simp
qed

end
